theory Spec2Isabelle
  imports Main
begin

section \<open>JavaScript values and string helpers\<close>

text \<open>
  The converter reads an already decoded OpenAPI document.  A JavaScript object is
  modelled by the list of its own entries in the order \<^verbatim>\<open>Object.entries\<close> and
  \<^verbatim>\<open>Object.keys\<close> enumerate them (keys are distinct); a field read by a
  fixed name, \<^verbatim>\<open>obj.field\<close>, is a lookup among these own entries.  An optional field is an
  \<open>option\<close>: \<open>None\<close> is \<^verbatim>\<open>undefined\<close>.  Strings are \<open>string\<close>; the empty string is
  the one falsy string.
\<close>

text \<open>\<^verbatim>\<open>x ? ... : ...\<close> on an optional string: defined and not empty.\<close>

fun truthy :: "string option \<Rightarrow> bool" where
  "truthy None = False"
| "truthy (Some s) = (s \<noteq> [])"

text \<open>\<^verbatim>\<open>x || d\<close> on an optional string.\<close>

fun or_else :: "string option \<Rightarrow> string \<Rightarrow> string" where
  "or_else None d = d"
| "or_else (Some s) d = (if s = [] then d else s)"

text \<open>\<^verbatim>\<open>`${x}`\<close> on an optional string: \<^verbatim>\<open>undefined\<close> prints as its name.\<close>

fun interpolate :: "string option \<Rightarrow> string" where
  "interpolate None = ''undefined''"
| "interpolate (Some s) = s"

text \<open>\<^verbatim>\<open>s.split('/')\<close>: the pieces between the separators, never an empty array.\<close>

fun split :: "char \<Rightarrow> string \<Rightarrow> string list" where
  "split c [] = [[]]"
| "split c (x # xs) =
     (if x = c then [] # split c xs
      else (case split c xs of
              [] \<Rightarrow> [[x]]
            | p # ps \<Rightarrow> (x # p) # ps))"

text \<open>\<^verbatim>\<open>ref.split('/').pop()\<close> and \<^verbatim>\<open>parts[parts.length - 1]\<close>.\<close>

definition lastSegment :: "string \<Rightarrow> string" where
  "lastSegment r = last (split (CHR ''/'') r)"

text \<open>\<^verbatim>\<open>xs.join(sep)\<close> on an array of strings.\<close>

fun join :: "string \<Rightarrow> string list \<Rightarrow> string" where
  "join sep [] = []"
| "join sep [x] = x"
| "join sep (x # y # ys) = x @ sep @ join sep (y # ys)"

text \<open>
  \<^verbatim>\<open>method.toUpperCase()\<close>.  The method names come from a fixed list of lower-case
  ASCII words, so the model maps the letters a to z and leaves every other character.
\<close>

definition upperChar :: "char \<Rightarrow> char" where
  "upperChar c =
     (case map_of (zip ''abcdefghijklmnopqrstuvwxyz'' ''ABCDEFGHIJKLMNOPQRSTUVWXYZ'') c of
        None \<Rightarrow> c
      | Some u \<Rightarrow> u)"

definition toUpperCase :: "string \<Rightarrow> string" where
  "toUpperCase s = map upperChar s"

text \<open>The decimal text of a counter, as a template literal prints a number.\<close>

definition digitChar :: "nat \<Rightarrow> char" where
  "digitChar d = ''0123456789'' ! d"

function showNat :: "nat \<Rightarrow> string" where
  "showNat n = (if n < 10 then [digitChar n] else showNat (n div 10) @ [digitChar (n mod 10)])"
  by pat_completeness auto
termination
  by (relation "measure id") auto

declare showNat.simps [simp del]

section \<open>Schema nodes\<close>

text \<open>
  A schema node is a JavaScript object read through the fields below.  \<open>ref\<close> is the
  \<^verbatim>\<open>$ref\<close> string, \<open>stype\<close> the \<^verbatim>\<open>type\<close> string (the shape of Swagger 2.0 and
  OpenAPI 3.0 documents, where \<^verbatim>\<open>type\<close> is one string), \<open>properties\<close> the
  entries of the \<^verbatim>\<open>properties\<close> object, \<open>enum_values\<close> the \<^verbatim>\<open>enum\<close> array with
  each value given by its string conversion (\<open>None\<close> when the field is absent or is
  not an array).  The fields \<open>allOf\<close>, \<open>oneOf\<close>, \<open>anyOf\<close>, \<open>items\<close>,
  \<open>properties\<close> and \<open>required\<close> hold arrays and objects, which are truthy
  whenever they are present.
\<close>

datatype schema = Schema
  (ref: "string option")
  (allOf: "schema list option")
  (oneOf: "schema list option")
  (anyOf: "schema list option")
  (stype: "string option")
  (items: "schema option")
  (properties: "(string \<times> schema) list option")
  (required: "string list option")
  (enum_values: "string list option")
  (format: "string option")

text \<open>Shorthands for the nodes used in the examples.\<close>

definition emptySchema :: schema where
  "emptySchema = Schema None None None None None None None None None None"

definition refSchema :: "string \<Rightarrow> schema" where
  "refSchema r = Schema (Some r) None None None None None None None None None"

definition typeSchema :: "string \<Rightarrow> schema" where
  "typeSchema t = Schema None None None None (Some t) None None None None None"

definition objectSchema :: "(string \<times> schema) list \<Rightarrow> schema" where
  "objectSchema ps = Schema None None None None (Some ''object'') None (Some ps) None None None"

definition allOfSchema :: "schema list \<Rightarrow> schema" where
  "allOfSchema bs = Schema None (Some bs) None None None None None None None None"

section \<open>resolveSchemaType\<close>

datatype schemaTypeContext = Parameter | RequestBody | Response

record resolveSchemaTypeOptions =
  ctx :: schemaTypeContext
  includeFormat :: "bool option"
  includeProperties :: "bool option"
  limitProperties :: "nat option"

text \<open>Every call site passes the context alone.\<close>

definition contextOnly :: "schemaTypeContext \<Rightarrow> resolveSchemaTypeOptions" where
  "contextOnly c =
     \<lparr>ctx = c, includeFormat = None, includeProperties = None, limitProperties = None\<rparr>"

definition unknownValue :: "schemaTypeContext \<Rightarrow> string" where
  "unknownValue c = (if c = Parameter then ''unknown'' else ''Unknown'')"

text \<open>The destructuring defaults of the options.\<close>

definition includeFormatOf :: "resolveSchemaTypeOptions \<Rightarrow> bool" where
  "includeFormatOf opts =
     (case includeFormat opts of None \<Rightarrow> ctx opts = Response | Some b \<Rightarrow> b)"

definition includePropertiesOf :: "resolveSchemaTypeOptions \<Rightarrow> bool" where
  "includePropertiesOf opts = (case includeProperties opts of None \<Rightarrow> True | Some b \<Rightarrow> b)"

definition limitPropertiesOf :: "resolveSchemaTypeOptions \<Rightarrow> nat option" where
  "limitPropertiesOf opts =
     (case limitProperties opts of
        None \<Rightarrow> (if ctx opts = RequestBody then Some 3 else None)
      | Some n \<Rightarrow> Some n)"

text \<open>The mapper applied to each branch of a composition in request-body context.\<close>

definition branchSummary :: "schema \<Rightarrow> string" where
  "branchSummary s =
     (if truthy (ref s) then lastSegment (interpolate (ref s))
      else if stype s = Some ''object'' \<and> properties s \<noteq> None then
        (let props = map fst (case properties s of None \<Rightarrow> [] | Some ps \<Rightarrow> ps)
         in if length props \<le> 3 then ''{'' @ join '', '' props @ ''}''
            else ''{'' @ join '', '' (take 3 props) @ '', ...}'')
      else or_else (stype s) ''inline'')"

definition compositionType :: "string \<Rightarrow> schemaTypeContext \<Rightarrow> schema list \<Rightarrow> string" where
  "compositionType kind c bs =
     (if c = RequestBody then kind @ '': ['' @ join '', '' (map branchSummary bs) @ '']''
      else unknownValue c)"

text \<open>The property names of an object, cut at the limit.\<close>

definition propNames :: "nat option \<Rightarrow> string list \<Rightarrow> string" where
  "propNames limit propKeys =
     (case limit of
        None \<Rightarrow> join '', '' propKeys
      | Some n \<Rightarrow>
          if n \<noteq> 0 \<and> length propKeys > n then join '', '' (take n propKeys) @ ''...''
          else join '', '' propKeys)"

definition primitiveType :: "bool \<Rightarrow> schema \<Rightarrow> string \<Rightarrow> string" where
  "primitiveType withFormat s t =
     (case enum_values s of
        Some vs \<Rightarrow> t @ '' ['' @ join '', '' vs @ '']''
      | None \<Rightarrow>
          if withFormat \<and> truthy (format s) then t @ '' (format: '' @ interpolate (format s) @ '')''
          else t)"

function (sequential) resolveSchemaType ::
  "schema option \<Rightarrow> resolveSchemaTypeOptions \<Rightarrow> string" where
  "resolveSchemaType None opts = unknownValue (ctx opts)"
| "resolveSchemaType (Some s) opts =
     (case ref s of
        Some r \<Rightarrow> or_else (Some (lastSegment r)) (unknownValue (ctx opts))
      | None \<Rightarrow>
     (case allOf s of
        Some bs \<Rightarrow> compositionType ''allOf'' (ctx opts) bs
      | None \<Rightarrow>
     (case oneOf s of
        Some bs \<Rightarrow> compositionType ''oneOf'' (ctx opts) bs
      | None \<Rightarrow>
     (case anyOf s of
        Some bs \<Rightarrow> compositionType ''anyOf'' (ctx opts) bs
      | None \<Rightarrow>
        if stype s = Some ''array'' then
          (if ctx opts = Parameter then ''array''
           else
             (case items s of
                None \<Rightarrow> ''array''
              | Some it \<Rightarrow>
                  (case ref it of
                     Some r \<Rightarrow>
                       ''Array of '' @ or_else (Some (lastSegment r)) (unknownValue (ctx opts))
                   | None \<Rightarrow>
                       if stype it = Some ''object'' then ''Array of object''
                       else ''Array of '' @ resolveSchemaType (Some it) opts)))
        else if stype s = Some ''object'' then
          (case properties s of
             None \<Rightarrow> ''object''
           | Some ps \<Rightarrow>
               if includePropertiesOf opts \<and> length ps > 0
               then ''Object ('' @ propNames (limitPropertiesOf opts) (map fst ps) @ '')''
               else ''object'')
        else if stype s = Some ''string'' \<or> stype s = Some ''integer'' \<or> stype s = Some ''number'' then
          primitiveType (includeFormatOf opts) s (interpolate (stype s))
        else if truthy (stype s) then interpolate (stype s)
        else unknownValue (ctx opts)))))"
  by pat_completeness auto
termination
proof (relation "measure (\<lambda>(schema, opts). case schema of None \<Rightarrow> 0 | Some s \<Rightarrow> size s)")
  show "wf (measure (\<lambda>(schema, opts). case schema of None \<Rightarrow> 0 | Some s \<Rightarrow> size s))"
    by simp
next
  fix s :: schema and opts :: resolveSchemaTypeOptions and it :: schema
  assume "items s = Some it"
  then have "size it < size s"
    by (cases s) simp
  then show "((Some it, opts), (Some s, opts))
               \<in> measure (\<lambda>(schema, opts). case schema of None \<Rightarrow> 0 | Some s \<Rightarrow> size s)"
    by simp
qed

section \<open>formatSchema: the schema listing\<close>

text \<open>
  The registry of virtual schemas is a JavaScript object that \<^verbatim>\<open>formatSchema\<close>
  mutates; the model passes it in and returns it.  An assignment
  \<^verbatim>\<open>registry[name] = s\<close> replaces the value of an existing key in place and
  appends a new key at the end.
\<close>

type_synonym registry = "(string \<times> schema) list"

fun registrySet :: "registry \<Rightarrow> string \<Rightarrow> schema \<Rightarrow> registry" where
  "registrySet [] k v = [(k, v)]"
| "registrySet ((k', v') # reg) k v =
     (if k' = k then (k, v) # reg else (k', v') # registrySet reg k v)"

text \<open>\<^verbatim>\<open>if (virtualSchemasRegistry) { virtualSchemasRegistry[virtualName] = s; }\<close>\<close>

definition register :: "registry option \<Rightarrow> string \<Rightarrow> schema \<Rightarrow> registry option" where
  "register reg k v = (case reg of None \<Rightarrow> None | Some r \<Rightarrow> Some (registrySet r k v))"

definition virtualName :: "string option \<Rightarrow> nat \<Rightarrow> string" where
  "virtualName parentSchemaName inlineCounter =
     ''<'' @ interpolate parentSchemaName @ ''__inline__'' @ showNat inlineCounter @ ''>''"

text \<open>
  The mapper over the branches of a top-level composition.  It closes over
  \<^verbatim>\<open>inlineCounter\<close> and the registry, so both are threaded through the branches.
\<close>

fun mapBranches ::
  "string option \<Rightarrow> schema list \<Rightarrow> nat \<Rightarrow> registry option \<Rightarrow> string list \<times> registry option"
where
  "mapBranches parent [] inlineCounter reg = ([], reg)"
| "mapBranches parent (s # ss) inlineCounter reg =
     (if truthy (ref s) then
        (case mapBranches parent ss inlineCounter reg of
           (names, reg') \<Rightarrow> (lastSegment (interpolate (ref s)) # names, reg'))
      else if stype s = Some ''object'' \<and> properties s \<noteq> None then
        (case mapBranches parent ss (inlineCounter + 1)
                (register reg (virtualName parent inlineCounter) s) of
           (names, reg') \<Rightarrow> (virtualName parent inlineCounter # names, reg'))
      else
        (case mapBranches parent ss inlineCounter reg of
           (names, reg') \<Rightarrow> (or_else (stype s) ''inline'' # names, reg')))"

record formatted =
  ftype :: string
  flines :: "string list"

definition formatComposition ::
  "string \<Rightarrow> string option \<Rightarrow> schema list \<Rightarrow> registry option \<Rightarrow> formatted \<times> registry option"
where
  "formatComposition kind parent bs reg =
     (case mapBranches parent bs 1 reg of
        (names, reg') \<Rightarrow>
          (\<lparr>ftype = kind @ '' ['' @ join '', '' names @ '']'', flines = []\<rparr>, reg'))"

text \<open>The mapper over the branches of a composition that is a property.\<close>

definition propBranchName :: "schema \<Rightarrow> string" where
  "propBranchName s =
     (if truthy (ref s) then lastSegment (interpolate (ref s))
      else or_else (stype s) ''inline'')"

definition propComposition :: "string \<Rightarrow> schema list \<Rightarrow> string" where
  "propComposition kind bs =
     (let schemas = map propBranchName bs
      in if length schemas = 1 \<and> ref (hd bs) \<noteq> None then hd schemas
         else kind @ '' ['' @ join '', '' schemas @ '']'')"

definition isPrimitive :: "string option \<Rightarrow> bool" where
  "isPrimitive t =
     (t = Some ''string'' \<or> t = Some ''integer'' \<or> t = Some ''number'' \<or> t = Some ''boolean'')"

definition propertyType :: "schema \<Rightarrow> string" where
  "propertyType prop =
     (if ref prop \<noteq> None then ''object''
      else
     (case allOf prop of
        Some bs \<Rightarrow> propComposition ''allOf'' bs
      | None \<Rightarrow>
     (case oneOf prop of
        Some bs \<Rightarrow> propComposition ''oneOf'' bs
      | None \<Rightarrow>
     (case anyOf prop of
        Some bs \<Rightarrow> propComposition ''anyOf'' bs
      | None \<Rightarrow>
        if stype prop = Some ''array'' then ''array''
        else if stype prop = Some ''object'' then ''object''
        else if isPrimitive (stype prop) then primitiveType True prop (interpolate (stype prop))
        else if truthy (stype prop) then interpolate (stype prop)
        else if properties prop \<noteq> None then ''object''
        else ''unknown''))))"

definition propertyLine :: "string \<Rightarrow> string list \<Rightarrow> string \<times> schema \<Rightarrow> string" where
  "propertyLine indent req entry =
     (case entry of
        (propName, prop) \<Rightarrow>
          indent @ ''- '' @ propName @ (if propName \<in> set req then ''*'' else [])
            @ '': '' @ propertyType prop)"

definition itemsLines :: "string \<Rightarrow> schema option \<Rightarrow> string list" where
  "itemsLines indent its =
     (case its of
        None \<Rightarrow> []
      | Some it \<Rightarrow>
          (case ref it of
             Some r \<Rightarrow> [indent @ ''items: '' @ or_else (Some (lastSegment r)) ''unknown'']
           | None \<Rightarrow>
               if stype it = Some ''object'' then [indent @ ''items: object'']
               else [indent @ ''items: '' @ resolveSchemaType (Some it) (contextOnly Response)]))"

definition formatSchema ::
  "schema \<Rightarrow> string \<Rightarrow> string option \<Rightarrow> registry option \<Rightarrow> formatted \<times> registry option"
where
  "formatSchema schema indent parentSchemaName virtualSchemasRegistry =
     (case allOf schema of
        Some bs \<Rightarrow> formatComposition ''allOf'' parentSchemaName bs virtualSchemasRegistry
      | None \<Rightarrow>
     (case oneOf schema of
        Some bs \<Rightarrow> formatComposition ''oneOf'' parentSchemaName bs virtualSchemasRegistry
      | None \<Rightarrow>
     (case anyOf schema of
        Some bs \<Rightarrow> formatComposition ''anyOf'' parentSchemaName bs virtualSchemasRegistry
      | None \<Rightarrow>
        if stype schema = Some ''array'' then
          (\<lparr>ftype = ''array'', flines = itemsLines indent (items schema)\<rparr>,
           virtualSchemasRegistry)
        else
          (case properties schema of
             Some ps \<Rightarrow>
               (\<lparr>ftype = ''object'',
                 flines = map (propertyLine indent
                                 (case required schema of None \<Rightarrow> [] | Some r \<Rightarrow> r)) ps\<rparr>,
                virtualSchemasRegistry)
           | None \<Rightarrow>
               if isPrimitive (stype schema) then
                 (\<lparr>ftype = primitiveType True schema (interpolate (stype schema)), flines = []\<rparr>,
                  virtualSchemasRegistry)
               else if truthy (stype schema) then
                 (\<lparr>ftype = interpolate (stype schema), flines = []\<rparr>, virtualSchemasRegistry)
               else (\<lparr>ftype = ''unknown'', flines = []\<rparr>, virtualSchemasRegistry)))))"

text \<open>The three pushes that emit one named schema.\<close>

definition schemaBlock :: "string \<Rightarrow> formatted \<Rightarrow> string list" where
  "schemaBlock name result = [name @ '': '' @ ftype result] @ flines result @ [[]]"

text \<open>
  One round of the loop of \<^verbatim>\<open>formatSchemas\<close>: a fresh registry for the parent, the
  parent's block, then one block for each entry of the registry, each rendered with a
  registry of its own that is dropped.
\<close>

definition virtualBlocks :: "registry option \<Rightarrow> string list" where
  "virtualBlocks reg =
     concat (map (\<lambda>(vName, vSchema).
                    schemaBlock vName (fst (formatSchema vSchema ''  '' (Some vName) (Some []))))
                 (case reg of None \<Rightarrow> [] | Some r \<Rightarrow> r))"

definition formatNamedSchema :: "string \<times> schema \<Rightarrow> string list" where
  "formatNamedSchema entry =
     (case entry of
        (schemaName, schema) \<Rightarrow>
          (case formatSchema schema ''  '' (Some schemaName) (Some []) of
             (result, virtualSchemasForParent) \<Rightarrow>
               schemaBlock schemaName result @ virtualBlocks virtualSchemasForParent))"

definition formatSchemas :: "(string \<times> schema) list \<Rightarrow> string list" where
  "formatSchemas schemas =
     [''SCHEMAS:'', ''> * = required\<newline>''] @ concat (map formatNamedSchema schemas)"

section \<open>The document\<close>

text \<open>
  A parameter node: \<open>p_ref\<close> is its \<^verbatim>\<open>$ref\<close> string, \<open>p_required\<close> the
  truthiness of \<^verbatim>\<open>required\<close>, \<open>p_enum\<close> the \<^verbatim>\<open>enum\<close> field when it is an
  array, each value given by its string conversion.
\<close>

record parameter =
  p_ref :: "string option"
  p_name :: "string option"
  p_in :: "string option"
  p_required :: bool
  p_schema :: "schema option"
  p_type :: "string option"
  p_enum :: "string list option"
  p_description :: "string option"

record mediaType =
  mt_schema :: "schema option"

record requestBody =
  rb_content :: "(string \<times> mediaType) list option"

record response =
  resp_description :: "string option"
  resp_content :: "(string \<times> mediaType) list option"
  resp_schema :: "schema option"

record operation =
  op_summary :: "string option"
  op_parameters :: "parameter list option"
  op_requestBody :: "requestBody option"
  op_responses :: "(string \<times> response) list option"

text \<open>
  A path item is read through its keys; the value under a key is an operation, or
  \<open>None\<close> when it is falsy.  Only the values under method keys are read.
\<close>

type_synonym pathItem = "(string \<times> operation option) list"

record infoObject =
  title :: string
  version :: string
  description :: "string option"

record server =
  url :: string
  srv_description :: "string option"

record securityScheme =
  sec_type :: "string option"
  sec_in :: "string option"
  sec_name :: "string option"
  sec_scheme :: "string option"

record components =
  schemas :: "(string \<times> schema) list option"
  securitySchemes :: "(string \<times> securityScheme) list option"
  comp_parameters :: "(string \<times> parameter) list option"

record document =
  swagger :: "string option"
  info :: infoObject
  host :: "string option"
  basePath :: "string option"
  schemes :: "string list option"
  servers :: "server list option"
  paths :: "(string \<times> pathItem option) list option"
  definitions :: "(string \<times> schema) list option"
  securityDefinitions :: "(string \<times> securityScheme) list option"
  parameters :: "(string \<times> parameter) list option"
  components :: "components option"

definition isSwagger2 :: "document \<Rightarrow> bool" where
  "isSwagger2 openApi = (swagger openApi = Some ''2.0'')"

section \<open>Parameters\<close>

text \<open>
  The lookup \<^verbatim>\<open>collection[paramName]\<close> takes its key from the document.  A decoded
  object inherits from \<^verbatim>\<open>Object.prototype\<close>, and the access finds an inherited member
  when the object has no own entry of that name.  The inherited members are functions,
  but for \<^verbatim>\<open>__proto__\<close>, which is the prototype object.  Read as a parameter node, a
  function has none of the fields but \<^verbatim>\<open>name\<close>, the function's own name, and the
  prototype object has none; both are truthy.
\<close>

definition objectPrototypeFunctions :: "(string \<times> string) list" where
  "objectPrototypeFunctions =
     [(''constructor'', ''Object''),
      (''__defineGetter__'', ''__defineGetter__''),
      (''__defineSetter__'', ''__defineSetter__''),
      (''hasOwnProperty'', ''hasOwnProperty''),
      (''__lookupGetter__'', ''__lookupGetter__''),
      (''__lookupSetter__'', ''__lookupSetter__''),
      (''isPrototypeOf'', ''isPrototypeOf''),
      (''propertyIsEnumerable'', ''propertyIsEnumerable''),
      (''toString'', ''toString''),
      (''valueOf'', ''valueOf''),
      (''toLocaleString'', ''toLocaleString'')]"

definition inheritedMember :: "string \<Rightarrow> parameter option" where
  "inheritedMember k =
     (if k = ''__proto__'' then
        Some \<lparr>p_ref = None, p_name = None, p_in = None, p_required = False, p_schema = None,
              p_type = None, p_enum = None, p_description = None\<rparr>
      else
        (case map_of objectPrototypeFunctions k of
           None \<Rightarrow> None
         | Some functionName \<Rightarrow>
             Some \<lparr>p_ref = None, p_name = Some functionName, p_in = None, p_required = False,
                   p_schema = None, p_type = None, p_enum = None, p_description = None\<rparr>))"

definition propertyGet :: "(string \<times> parameter) list \<Rightarrow> string \<Rightarrow> parameter option" where
  "propertyGet collection k =
     (case map_of collection k of
        Some v \<Rightarrow> Some v
      | None \<Rightarrow> inheritedMember k)"

definition resolveParameterRef :: "string \<Rightarrow> document \<Rightarrow> parameter option" where
  "resolveParameterRef r openApi =
     (let paramName = lastSegment r
      in if \<not> isSwagger2 openApi then
           (case components openApi of
              None \<Rightarrow> None
            | Some c \<Rightarrow>
                (case comp_parameters c of
                   None \<Rightarrow> None
                 | Some ps \<Rightarrow> propertyGet ps paramName))
         else
           (case parameters openApi of
              None \<Rightarrow> None
            | Some ps \<Rightarrow> propertyGet ps paramName))"

definition parameterType :: "parameter \<Rightarrow> string" where
  "parameterType resolvedParam =
     (case p_schema resolvedParam of
        Some sch \<Rightarrow> resolveSchemaType (Some sch) (contextOnly Parameter)
      | None \<Rightarrow>
          if truthy (p_type resolvedParam) then
            (if p_type resolvedParam = Some ''array'' then ''array''
             else if p_type resolvedParam = Some ''file'' then ''file''
             else
               interpolate (p_type resolvedParam)
                 @ (case p_enum resolvedParam of
                      None \<Rightarrow> []
                    | Some vs \<Rightarrow> '' ['' @ join '', '' vs @ '']''))
          else ''unknown'')"

definition parameterLine :: "parameter \<Rightarrow> string" where
  "parameterLine resolvedParam =
     ''    - '' @ or_else (p_name resolvedParam) ''undefined''
       @ '' ('' @ or_else (p_in resolvedParam) ''undefined''
       @ '', '' @ parameterType resolvedParam
       @ '' ('' @ (if p_required resolvedParam then ''required'' else ''optional'') @ '')): ''
       @ or_else (p_description resolvedParam) ''No description''"

text \<open>One round of the loop: \<open>None\<close> is the \<^verbatim>\<open>continue\<close> on an unresolved reference.\<close>

definition resolvedParameter :: "document \<Rightarrow> parameter \<Rightarrow> parameter option" where
  "resolvedParameter openApi p =
     (case p_ref p of
        None \<Rightarrow> Some p
      | Some r \<Rightarrow> resolveParameterRef r openApi)"

definition paramLines :: "parameter list \<Rightarrow> document \<Rightarrow> string list" where
  "paramLines ps openApi =
     concat (map (\<lambda>p. case resolvedParameter openApi p of
                         None \<Rightarrow> []
                       | Some resolvedParam \<Rightarrow> [parameterLine resolvedParam]) ps)"

definition formatParameters :: "parameter list \<Rightarrow> document \<Rightarrow> string list" where
  "formatParameters ps openApi =
     (if length (paramLines ps openApi) > 0 then ''  Parameters:'' # paramLines ps openApi
      else [])"

section \<open>Operations and endpoints\<close>

definition contentLines ::
  "string \<Rightarrow> schemaTypeContext \<Rightarrow> (string \<times> mediaType) list \<Rightarrow> string list" where
  "contentLines indent c content =
     concat (map (\<lambda>(contentType, mediaType).
                    [indent @ ''Content: '' @ contentType,
                     indent @ ''Schema: '' @ resolveSchemaType (mt_schema mediaType) (contextOnly c)])
                 content)"

definition formatRequestBody :: "requestBody \<Rightarrow> string list" where
  "formatRequestBody rb =
     ''  Request Body:''
       # (case rb_content rb of
            None \<Rightarrow> []
          | Some content \<Rightarrow> contentLines ''    '' RequestBody content)"

definition formatResponse :: "string \<times> response \<Rightarrow> string list" where
  "formatResponse entry =
     (case entry of
        (statusCode, resp) \<Rightarrow>
          (''    '' @ statusCode @ '': '' @ or_else (resp_description resp) ''No description'')
            # (case resp_content resp of
                 Some content \<Rightarrow> contentLines ''      '' Response content
               | None \<Rightarrow>
                   (case resp_schema resp of
                      Some sch \<Rightarrow>
                        [''      Schema: '' @ resolveSchemaType (Some sch) (contextOnly Response)]
                    | None \<Rightarrow> [])))"

definition formatResponses :: "(string \<times> response) list \<Rightarrow> string list" where
  "formatResponses responses = ''  Responses:'' # concat (map formatResponse responses)"

definition formatOperation :: "string \<Rightarrow> string \<Rightarrow> operation \<Rightarrow> document \<Rightarrow> string list" where
  "formatOperation method path operation openApi =
     [toUpperCase method @ '' '' @ path]
       @ (if truthy (op_summary operation)
          then [''  Summary: '' @ interpolate (op_summary operation)] else [])
       @ (case op_parameters operation of
            None \<Rightarrow> []
          | Some ps \<Rightarrow> if length ps > 0 then formatParameters ps openApi else [])
       @ (case op_requestBody operation of
            None \<Rightarrow> []
          | Some rb \<Rightarrow> formatRequestBody rb)
       @ (case op_responses operation of
            None \<Rightarrow> []
          | Some responses \<Rightarrow> formatResponses responses)
       @ [[]]"

definition allPossibleMethods :: "string list" where
  "allPossibleMethods =
     [''get'', ''put'', ''post'', ''delete'', ''options'', ''head'', ''patch'', ''trace'']"

definition formatPathItem :: "document \<Rightarrow> string \<times> pathItem option \<Rightarrow> string list" where
  "formatPathItem openApi entry =
     (case entry of
        (path, None) \<Rightarrow> []
      | (path, Some pathItem) \<Rightarrow>
          concat (map (\<lambda>(method, operation).
                         case operation of
                           None \<Rightarrow> []
                         | Some op \<Rightarrow> formatOperation method path op openApi)
                      (filter (\<lambda>(key, operation). key \<in> set allPossibleMethods) pathItem)))"

definition formatEndpoints ::
  "(string \<times> pathItem option) list \<Rightarrow> document \<Rightarrow> string list" where
  "formatEndpoints pathEntries openApi =
     ''\<newline>ENDPOINTS:\<newline>'' # concat (map (formatPathItem openApi) pathEntries)"

section \<open>Header, security and the entry point\<close>

definition formatHeader :: "infoObject \<Rightarrow> server list option \<Rightarrow> string list" where
  "formatHeader apiInfo srvs =
     [''API: '' @ title apiInfo @ '' v'' @ version apiInfo]
       @ (if truthy (description apiInfo)
          then [''Description: '' @ interpolate (description apiInfo)] else [])
       @ (case srvs of
            None \<Rightarrow> []
          | Some [] \<Rightarrow> []
          | Some (primaryServer # others) \<Rightarrow>
              (''\<newline>Base URL: '' @ url primaryServer)
                # (if length (primaryServer # others) > 1 then
                     ''Additional URLs:''
                       # map (\<lambda>server.
                                ''  - '' @ url server
                                  @ (if truthy (srv_description server)
                                     then '' ('' @ interpolate (srv_description server) @ '')''
                                     else []))
                              others
                   else []))"

definition formatSecurityScheme :: "securityScheme \<Rightarrow> string list" where
  "formatSecurityScheme schemeObj =
     (if sec_type schemeObj = Some ''oauth2'' then [''- OAuth2 authentication'']
      else if sec_type schemeObj = Some ''apiKey'' then
        [''- API Key authentication ('' @ interpolate (sec_in schemeObj) @ '': ''
           @ interpolate (sec_name schemeObj) @ '')'']
      else if sec_type schemeObj = Some ''http'' then
        (if sec_scheme schemeObj = Some ''bearer'' then [''- HTTP bearer authentication'']
         else if sec_scheme schemeObj = Some ''basic'' then [''- HTTP basic authentication'']
         else [''- HTTP '' @ interpolate (sec_scheme schemeObj) @ '' authentication''])
      else if sec_type schemeObj = Some ''openIdConnect'' then
        [''- OpenID Connect authentication'']
      else if sec_type schemeObj = Some ''basic'' then [''- HTTP basic authentication'']
      else [])"

definition formatSecurity :: "(string \<times> securityScheme) list \<Rightarrow> string list" where
  "formatSecurity securitySchemesEntries =
     ''SECURITY:'' # concat (map (\<lambda>(name, scheme). formatSecurityScheme scheme)
                                securitySchemesEntries) @ [[]]"

text \<open>
  \<^verbatim>\<open>openApi.schemes?.[0] || 'https'\<close>, then the base URL of a Swagger 2.0 document:
  defined when host and basePath are both truthy.
\<close>

definition swaggerScheme :: "document \<Rightarrow> string" where
  "swaggerScheme openApi =
     or_else (case schemes openApi of
                None \<Rightarrow> None
              | Some [] \<Rightarrow> None
              | Some (s # ss) \<Rightarrow> Some s) ''https''"

definition swaggerBaseUrl :: "document \<Rightarrow> string option" where
  "swaggerBaseUrl openApi =
     (if truthy (host openApi) \<and> truthy (basePath openApi)
      then Some (swaggerScheme openApi @ ''://'' @ interpolate (host openApi)
                   @ interpolate (basePath openApi))
      else None)"

text \<open>The array \<^verbatim>\<open>sections\<close> of \<^verbatim>\<open>openApiToLlmText\<close>, before it is joined.\<close>

definition sections :: "document \<Rightarrow> string list" where
  "sections openApi =
     (if isSwagger2 openApi then
        formatHeader (info openApi)
          (case swaggerBaseUrl openApi of
             None \<Rightarrow> None
           | Some baseUrl \<Rightarrow> Some [\<lparr>url = baseUrl, srv_description = None\<rparr>])
        @ formatEndpoints (case paths openApi of None \<Rightarrow> [] | Some ps \<Rightarrow> ps) openApi
        @ (case definitions openApi of
             None \<Rightarrow> []
           | Some defs \<Rightarrow> formatSchemas defs)
        @ (case securityDefinitions openApi of
             None \<Rightarrow> []
           | Some secs \<Rightarrow> formatSecurity secs)
      else
        formatHeader (info openApi) (servers openApi)
        @ formatEndpoints (case paths openApi of None \<Rightarrow> [] | Some ps \<Rightarrow> ps) openApi
        @ (case components openApi of
             None \<Rightarrow> []
           | Some c \<Rightarrow>
               (case schemas c of
                  None \<Rightarrow> []
                | Some defs \<Rightarrow> formatSchemas defs))
        @ (case components openApi of
             None \<Rightarrow> []
           | Some c \<Rightarrow>
               (case securitySchemes c of
                  None \<Rightarrow> []
                | Some secs \<Rightarrow> formatSecurity secs)))"

definition openApiToLlmText :: "document \<Rightarrow> string" where
  "openApiToLlmText openApi = join ''\<newline>'' (sections openApi)"

section \<open>Notions of the specification and example documents\<close>

text \<open>
  The substring of a reference string after its last slash (the whole string when it has
  no slash), written from the specification's words and compared below with
  \<open>lastSegment\<close>, which follows the code.
\<close>

definition afterLastSlash :: "string \<Rightarrow> string" where
  "afterLastSlash s = rev (takeWhile (\<lambda>x. x \<noteq> CHR ''/'') (rev s))"

text \<open>
  An inline object branch of a composition, as the branch mapper of \<open>formatSchema\<close>
  tests it: no usable \<^verbatim>\<open>$ref\<close>, type \<^verbatim>\<open>object\<close>, and a \<^verbatim>\<open>properties\<close> field.
\<close>

definition isInlineObject :: "schema \<Rightarrow> bool" where
  "isInlineObject s = (\<not> truthy (ref s) \<and> stype s = Some ''object'' \<and> properties s \<noteq> None)"

definition inlineBranches :: "schema list \<Rightarrow> schema list" where
  "inlineBranches bs = filter isInlineObject bs"

text \<open>
  The composition a node renders as: the first of \<^verbatim>\<open>allOf\<close>, \<^verbatim>\<open>oneOf\<close>,
  \<^verbatim>\<open>anyOf\<close> that is present, with its branches.
\<close>

definition compositionOf :: "schema \<Rightarrow> (string \<times> schema list) option" where
  "compositionOf s =
     (case allOf s of
        Some bs \<Rightarrow> Some (''allOf'', bs)
      | None \<Rightarrow>
          (case oneOf s of
             Some bs \<Rightarrow> Some (''oneOf'', bs)
           | None \<Rightarrow>
               (case anyOf s of
                  Some bs \<Rightarrow> Some (''anyOf'', bs)
                | None \<Rightarrow> None)))"

text \<open>
  The collection in which a parameter reference is looked up: the top-level parameters
  of a Swagger 2.0 document, the component parameters of an OpenAPI 3.x document.  A
  reference is unresolvable when the lookup gives nothing: there is no collection, or
  the collection has no own entry of the name and the name is not an inherited member.
\<close>

definition parameterCollection :: "document \<Rightarrow> (string \<times> parameter) list option" where
  "parameterCollection openApi =
     (if swagger openApi = Some ''2.0'' then parameters openApi
      else (case components openApi of None \<Rightarrow> None | Some c \<Rightarrow> comp_parameters c))"

definition unresolvable :: "document \<Rightarrow> parameter \<Rightarrow> bool" where
  "unresolvable openApi p =
     (case p_ref p of
        None \<Rightarrow> False
      | Some r \<Rightarrow>
          (case parameterCollection openApi of
             None \<Rightarrow> True
           | Some ps \<Rightarrow>
               lastSegment r \<notin> fst ` set ps \<and> inheritedMember (lastSegment r) = None))"

text \<open>
  The order of \<^verbatim>\<open>Object.keys\<close> and \<^verbatim>\<open>Object.entries\<close> on an object whose entries
  were created in the order \<open>declared\<close>, as the JSON and YAML decoders create them in
  the order of the document: first the keys that are array indices (the decimal text,
  without leading zeros, of an integer below 4294967295) in ascending numeric order,
  then the other keys in the order of creation.
\<close>

definition isDigit :: "char \<Rightarrow> bool" where
  "isDigit c = (c \<in> set ''0123456789'')"

definition digitValue :: "char \<Rightarrow> nat" where
  "digitValue c = of_char c - 48"

definition readNat :: "string \<Rightarrow> nat" where
  "readNat s = foldl (\<lambda>n c. 10 * n + digitValue c) 0 s"

definition isArrayIndex :: "string \<Rightarrow> bool" where
  "isArrayIndex s =
     (s \<noteq> [] \<and> list_all isDigit s \<and> (s = ''0'' \<or> hd s \<noteq> CHR ''0'')
      \<and> readNat s < 4294967295)"

definition ownPropertyOrder :: "(string \<times> 'a) list \<Rightarrow> (string \<times> 'a) list" where
  "ownPropertyOrder declared =
     sort_key (\<lambda>entry. readNat (fst entry)) (filter (\<lambda>entry. isArrayIndex (fst entry)) declared)
       @ filter (\<lambda>entry. \<not> isArrayIndex (fst entry)) declared"

definition emptyDocument :: document where
  "emptyDocument =
     \<lparr>swagger = None, info = \<lparr>title = ''T'', version = ''1'', description = None\<rparr>,
      host = None, basePath = None, schemes = None, servers = None, paths = None,
      definitions = None, securityDefinitions = None, parameters = None, components = None\<rparr>"

definition emptyOperation :: operation where
  "emptyOperation =
     \<lparr>op_summary = None, op_parameters = None, op_requestBody = None, op_responses = None\<rparr>"

definition emptyParameter :: parameter where
  "emptyParameter =
     \<lparr>p_ref = None, p_name = None, p_in = None, p_required = False, p_schema = None,
      p_type = None, p_enum = None, p_description = None\<rparr>"

text \<open>
  The OpenAPI 3.0 document
  \<^verbatim>\<open>{openapi:"3.0.0", info:{title:"T",version:"1"}, servers:[{url:"/api"}],
   paths:{"/x":{get:{summary:"S", responses:{"200":{description:"OK"}}}}}}\<close>.
  The field \<^verbatim>\<open>openapi\<close> is never read.
\<close>

definition getX :: operation where
  "getX =
     \<lparr>op_summary = Some ''S'', op_parameters = None, op_requestBody = None,
      op_responses =
        Some [(''200'', \<lparr>resp_description = Some ''OK'', resp_content = None,
                           resp_schema = None\<rparr>)]\<rparr>"

definition endToEndDocument :: document where
  "endToEndDocument =
     emptyDocument
       \<lparr>servers := Some [\<lparr>url = ''/api'', srv_description = None\<rparr>],
        paths := Some [(''/x'', Some [(''get'', Some getX)])]\<rparr>"

text \<open>
  The Swagger 2.0 document with
  \<^verbatim>\<open>swagger:"2.0", host:"api.x.com", basePath:"/v1", schemes:["http"]\<close>.
\<close>

definition swaggerDocument :: document where
  "swaggerDocument =
     emptyDocument
       \<lparr>swagger := Some ''2.0'', host := Some ''api.x.com'', basePath := Some ''/v1'',
        schemes := Some [''http'']\<rparr>"

text \<open>
  The schema \<^verbatim>\<open>Foo\<close> with
  \<^verbatim>\<open>allOf: [{$ref: Bar}, {type: object, properties: {x, y}}]\<close>.
\<close>

definition xyObject :: schema where
  "xyObject = objectSchema [(''x'', typeSchema ''string''), (''y'', typeSchema ''integer'')]"

definition fooSchema :: schema where
  "fooSchema = allOfSchema [refSchema ''#/components/schemas/Bar'', xyObject]"

definition fiveProperties :: schema where
  "fiveProperties =
     objectSchema [(''id'', typeSchema ''integer''), (''name'', typeSchema ''string''),
       (''tag'', typeSchema ''string''), (''age'', typeSchema ''integer''),
       (''owner'', refSchema ''#/components/schemas/User'')]"

text \<open>
  A schema \<^verbatim>\<open>Pet\<close> whose properties are a bare reference, a composition of one
  reference, and a composition of three branches.
\<close>

definition petSchema :: schema where
  "petSchema =
     Schema None None None None (Some ''object'') None
       (Some [(''owner'', refSchema ''#/components/schemas/User''),
              (''category'', allOfSchema [refSchema ''#/components/schemas/Category'']),
              (''kind'', allOfSchema [refSchema ''#/components/schemas/Cat'',
                                       typeSchema ''string'', emptySchema])])
       (Some [''owner'']) None None"

text \<open>
  An OpenAPI 3.x document whose component parameters hold \<^verbatim>\<open>limit\<close> alone, and two
  parameter references: one to \<^verbatim>\<open>limit\<close>, one to \<^verbatim>\<open>offset\<close>, which is missing.
\<close>

definition limitParameter :: parameter where
  "limitParameter =
     emptyParameter
       \<lparr>p_name := Some ''limit'', p_in := Some ''query'',
        p_schema := Some (typeSchema ''integer'')\<rparr>"

definition parameterDocument :: document where
  "parameterDocument =
     emptyDocument
       \<lparr>components :=
          Some \<lparr>schemas = None, securitySchemes = None,
                comp_parameters = Some [(''limit'', limitParameter)]\<rparr>\<rparr>"

definition limitRef :: parameter where
  "limitRef = emptyParameter\<lparr>p_ref := Some ''#/components/parameters/limit''\<rparr>"

definition offsetRef :: parameter where
  "offsetRef = emptyParameter\<lparr>p_ref := Some ''#/components/parameters/offset''\<rparr>"

definition offsetOperation :: operation where
  "offsetOperation = emptyOperation\<lparr>op_parameters := Some [offsetRef]\<rparr>"

text \<open>
  An object schema whose document declares the properties \<^verbatim>\<open>b, a, 2, 1, c\<close> in
  this order, as the decoder hands it over.
\<close>

definition mixedDeclared :: "(string \<times> schema) list" where
  "mixedDeclared =
     [(''b'', typeSchema ''string''), (''a'', typeSchema ''string''),
      (''2'', typeSchema ''string''), (''1'', typeSchema ''string''),
      (''c'', typeSchema ''string'')]"

definition mixedProperties :: schema where
  "mixedProperties = objectSchema (ownPropertyOrder mixedDeclared)"

text \<open>
  A reference to the parameter \<^verbatim>\<open>toString\<close>, which \<open>parameterDocument\<close> does not
  define, and an operation with this parameter alone.
\<close>

definition toStringRef :: parameter where
  "toStringRef = emptyParameter\<lparr>p_ref := Some ''#/components/parameters/toString''\<rparr>"

definition toStringOperation :: operation where
  "toStringOperation = emptyOperation\<lparr>op_parameters := Some [toStringRef]\<rparr>"



section \<open>Facts about the string helpers\<close>

lemma split_not_Nil [simp]: "split c s \<noteq> []"
  by (induction s) (auto split: list.splits)

lemma split_no_sep: "c \<notin> set s \<Longrightarrow> split c s = [s]"
  by (induction s) auto

lemma split_sep_two: "c \<in> set s \<Longrightarrow> split c s = p # ps \<Longrightarrow> ps \<noteq> []"
  by (induction s arbitrary: p ps) (auto split: if_splits list.splits)

lemma takeWhile_snoc_stop: "\<not> P c \<Longrightarrow> takeWhile P (ys @ [c]) = takeWhile P ys"
  by (induction ys) auto

lemma last_split: "last (split c s) = rev (takeWhile (\<lambda>x. x \<noteq> c) (rev s))"
proof (induction s)
  case Nil
  show ?case by simp
next
  case (Cons x xs)
  show ?case
  proof (cases "x = c")
    case True
    then show ?thesis using Cons by (simp add: takeWhile_snoc_stop)
  next
    case differs: False
    show ?thesis
    proof (cases "c \<in> set xs")
      case True
      obtain p ps where sp: "split c xs = p # ps"
        by (cases "split c xs") auto
      with True have "ps \<noteq> []" by (rule split_sep_two)
      then show ?thesis using differs True sp Cons
        by (auto simp: takeWhile_append)
    next
      case False
      then show ?thesis using differs by (simp add: split_no_sep takeWhile_append)
    qed
  qed
qed

lemma lastSegment_afterLastSlash: "lastSegment r = afterLastSlash r"
  by (simp add: lastSegment_def afterLastSlash_def last_split)

section \<open>References in resolveSchemaType\<close>

text \<open>
  C3 (amended).  For a schema node that carries a \<^verbatim>\<open>$ref\<close> string, \<open>resolveSchemaType\<close>
  returns, in every context and whatever the other fields of the node and the target of
  the reference are, the substring of the reference string after its last slash when
  that substring is not empty; when it is empty (the reference ends in a slash, or is
  empty) it returns the unknown token of the context.
\<close>

theorem resolveSchemaType_reference:
  "ref s = Some r \<Longrightarrow>
   resolveSchemaType (Some s) opts =
     (if afterLastSlash r = [] then unknownValue (ctx opts) else afterLastSlash r)"
  by (simp add: lastSegment_afterLastSlash)

theorem resolveSchemaType_reference_witness:
  "ref (refSchema ''#/components/schemas/Pet'') = Some ''#/components/schemas/Pet''
   \<and> resolveSchemaType (Some (refSchema ''#/components/schemas/Pet'')) (contextOnly Response)
       = ''Pet''"
  using resolveSchemaType_reference
    [of "refSchema ''#/components/schemas/Pet''" "''#/components/schemas/Pet''"
        "contextOnly Response"]
  by (simp add: refSchema_def afterLastSlash_def)

text \<open>
  C3 as stated fails on a reference that ends in a slash: the substring after the last
  slash is empty, and the result is the unknown token.
\<close>

theorem resolveSchemaType_reference_counterexample:
  "resolveSchemaType (Some (refSchema ''#/components/schemas/'')) (contextOnly Response)
     \<noteq> afterLastSlash ''#/components/schemas/''
   \<and> resolveSchemaType (Some (refSchema ''#/components/schemas/'')) (contextOnly Response)
       = ''Unknown''"
  by (simp add: refSchema_def contextOnly_def lastSegment_def unknownValue_def
      afterLastSlash_def)

section \<open>Object property names in resolveSchemaType\<close>

lemma length_ownPropertyOrder: "length (ownPropertyOrder declared) = length declared"
  by (simp add: ownPropertyOrder_def sum_length_filter_compl)

lemma set_ownPropertyOrder: "set (ownPropertyOrder declared) = set declared"
  by (auto simp: ownPropertyOrder_def)

lemma ownPropertyOrder_no_index:
  "\<forall>entry\<in>set declared. \<not> isArrayIndex (fst entry) \<Longrightarrow> ownPropertyOrder declared = declared"
proof -
  assume none: "\<forall>entry\<in>set declared. \<not> isArrayIndex (fst entry)"
  then have "filter (\<lambda>entry. isArrayIndex (fst entry)) declared = []"
    by (simp add: filter_empty_conv)
  moreover from none have "filter (\<lambda>entry. \<not> isArrayIndex (fst entry)) declared = declared"
    by (simp add: filter_id_conv)
  ultimately show ?thesis
    by (simp add: ownPropertyOrder_def)
qed

text \<open>
  C4 (amended).  For an object schema (type \<^verbatim>\<open>object\<close>, no \<^verbatim>\<open>$ref\<close>, no
  composition keyword) whose document declares five properties, \<open>resolveSchemaType\<close>
  in request-body context returns \<^verbatim>\<open>Object (\<close>...\<^verbatim>\<open>)\<close> with exactly three property
  names followed by the marker \<^verbatim>\<open>...\<close>, and in response context with all five; the
  names stand in the order in which \<^verbatim>\<open>Object.keys\<close> enumerates the decoded object:
  names that are array indices first, in ascending numeric order, then the other names
  in the order of declaration.  When no name is an array index this is the order of
  declaration, and the three names are the first three declared.
\<close>

theorem resolveSchemaType_object_five:
  assumes "ref s = None" and "allOf s = None" and "oneOf s = None" and "anyOf s = None"
    and "stype s = Some ''object''"
    and "properties s = Some (ownPropertyOrder declared)"
    and "declared = [(n1, s1), (n2, s2), (n3, s3), (n4, s4), (n5, s5)]"
  shows "resolveSchemaType (Some s) (contextOnly RequestBody)
           = ''Object ('' @ join '', '' (take 3 (map fst (ownPropertyOrder declared))) @ ''...)''
       \<and> length (take 3 (map fst (ownPropertyOrder declared))) = 3
       \<and> resolveSchemaType (Some s) (contextOnly Response)
           = ''Object ('' @ join '', '' (map fst (ownPropertyOrder declared)) @ '')''
       \<and> length (map fst (ownPropertyOrder declared)) = 5
       \<and> set (map fst (ownPropertyOrder declared)) = {n1, n2, n3, n4, n5}
       \<and> (\<not> isArrayIndex n1 \<and> \<not> isArrayIndex n2 \<and> \<not> isArrayIndex n3
             \<and> \<not> isArrayIndex n4 \<and> \<not> isArrayIndex n5 \<longrightarrow>
           resolveSchemaType (Some s) (contextOnly RequestBody)
             = ''Object ('' @ n1 @ '', '' @ n2 @ '', '' @ n3 @ ''...)''
           \<and> resolveSchemaType (Some s) (contextOnly Response)
               = ''Object ('' @ n1 @ '', '' @ n2 @ '', '' @ n3 @ '', '' @ n4 @ '', '' @ n5
                   @ '')'')"
proof -
  let ?keys = "map fst (ownPropertyOrder declared)"
  have len: "length (ownPropertyOrder declared) = 5"
    using assms(7) by (simp add: length_ownPropertyOrder)
  have request: "resolveSchemaType (Some s) (contextOnly RequestBody)
                   = ''Object ('' @ join '', '' (take 3 ?keys) @ ''...)''"
    using assms(1-6) len
    by (simp add: contextOnly_def includePropertiesOf_def limitPropertiesOf_def propNames_def)
  have response: "resolveSchemaType (Some s) (contextOnly Response)
                    = ''Object ('' @ join '', '' ?keys @ '')''"
    using assms(1-6) len
    by (simp add: contextOnly_def includePropertiesOf_def limitPropertiesOf_def propNames_def)
  have names: "set ?keys = {n1, n2, n3, n4, n5}"
    using assms(7) by (simp add: set_ownPropertyOrder)
  have declaredOrder: "ownPropertyOrder declared = declared"
    if "\<not> isArrayIndex n1 \<and> \<not> isArrayIndex n2 \<and> \<not> isArrayIndex n3
        \<and> \<not> isArrayIndex n4 \<and> \<not> isArrayIndex n5"
    using that assms(7) by (intro ownPropertyOrder_no_index) simp
  have explicit: "resolveSchemaType (Some s) (contextOnly RequestBody)
             = ''Object ('' @ n1 @ '', '' @ n2 @ '', '' @ n3 @ ''...)''
           \<and> resolveSchemaType (Some s) (contextOnly Response)
               = ''Object ('' @ n1 @ '', '' @ n2 @ '', '' @ n3 @ '', '' @ n4 @ '', '' @ n5
                   @ '')''"
    if "\<not> isArrayIndex n1 \<and> \<not> isArrayIndex n2 \<and> \<not> isArrayIndex n3
        \<and> \<not> isArrayIndex n4 \<and> \<not> isArrayIndex n5"
    using request response declaredOrder [OF that] assms(7) by simp
  show ?thesis
    using request response names len explicit by simp
qed

theorem resolveSchemaType_object_five_witness:
  "resolveSchemaType (Some fiveProperties) (contextOnly RequestBody) = ''Object (id, name, tag...)''
   \<and> resolveSchemaType (Some fiveProperties) (contextOnly Response)
       = ''Object (id, name, tag, age, owner)''"
proof -
  let ?declared = "[(''id'', typeSchema ''integer''), (''name'', typeSchema ''string''),
       (''tag'', typeSchema ''string''), (''age'', typeSchema ''integer''),
       (''owner'', refSchema ''#/components/schemas/User'')]"
  have names: "\<not> isArrayIndex ''id'' \<and> \<not> isArrayIndex ''name'' \<and> \<not> isArrayIndex ''tag''
               \<and> \<not> isArrayIndex ''age'' \<and> \<not> isArrayIndex ''owner''"
    by (simp add: isArrayIndex_def isDigit_def)
  then have order: "ownPropertyOrder ?declared = ?declared"
    by (intro ownPropertyOrder_no_index) simp
  have props: "properties fiveProperties = Some (ownPropertyOrder ?declared)"
    by (simp only: order) (simp add: fiveProperties_def objectSchema_def)
  have node: "ref fiveProperties = None" "allOf fiveProperties = None"
    "oneOf fiveProperties = None" "anyOf fiveProperties = None"
    "stype fiveProperties = Some ''object''"
    by (simp_all add: fiveProperties_def objectSchema_def)
  from resolveSchemaType_object_five [OF node props refl] names
  have "resolveSchemaType (Some fiveProperties) (contextOnly RequestBody)
          = ''Object ('' @ ''id'' @ '', '' @ ''name'' @ '', '' @ ''tag'' @ ''...)''
        \<and> resolveSchemaType (Some fiveProperties) (contextOnly Response)
            = ''Object ('' @ ''id'' @ '', '' @ ''name'' @ '', '' @ ''tag'' @ '', '' @ ''age''
                @ '', '' @ ''owner'' @ '')''"
    by blast
  then show ?thesis
    by (simp only: append.simps)
qed

text \<open>
  C4 as stated fails on property names that are array indices: a schema that declares
  \<^verbatim>\<open>b, a, 2, 1, c\<close> renders in request-body context with \<^verbatim>\<open>1, 2, b\<close>, not with the
  first three declared names \<^verbatim>\<open>b, a, 2\<close>.
\<close>

theorem resolveSchemaType_object_five_counterexample:
  "map fst mixedDeclared = [''b'', ''a'', ''2'', ''1'', ''c'']
   \<and> resolveSchemaType (Some mixedProperties) (contextOnly RequestBody) = ''Object (1, 2, b...)''
   \<and> resolveSchemaType (Some mixedProperties) (contextOnly RequestBody)
       \<noteq> ''Object (b, a, 2...)''
   \<and> resolveSchemaType (Some mixedProperties) (contextOnly Response)
       = ''Object (1, 2, b, a, c)''"
  by (simp add: mixedProperties_def mixedDeclared_def objectSchema_def typeSchema_def
      ownPropertyOrder_def isArrayIndex_def isDigit_def readNat_def digitValue_def
      contextOnly_def includePropertiesOf_def limitPropertiesOf_def propNames_def)

section \<open>The end-to-end example\<close>

text \<open>
  C2 (amended).  For the OpenAPI 3.0 document
  \<^verbatim>\<open>{openapi:"3.0.0", info:{title:"T",version:"1"}, servers:[{url:"/api"}],
   paths:{"/x":{get:{summary:"S", responses:{"200":{description:"OK"}}}}}}\<close>
  the string returned by \<open>openApiToLlmText\<close> is exactly the text below: it ends after
  the line \<^verbatim>\<open>    200: OK\<close> with one newline.
\<close>

theorem openApiToLlmText_end_to_end:
  "openApiToLlmText endToEndDocument =
     ''API: T v1\<newline>\<newline>Base URL: /api\<newline>\<newline>ENDPOINTS:\<newline>\<newline>GET /x\<newline>  Summary: S\<newline>  Responses:\<newline>    200: OK\<newline>''"
  by (simp add: openApiToLlmText_def sections_def isSwagger2_def endToEndDocument_def
      emptyDocument_def formatHeader_def formatEndpoints_def formatPathItem_def
      allPossibleMethods_def formatOperation_def getX_def toUpperCase_def upperChar_def
      formatResponses_def formatResponse_def)

theorem openApiToLlmText_end_to_end_witness:
  "length (openApiToLlmText endToEndDocument) = 84
   \<and> last (openApiToLlmText endToEndDocument) = CHR ''\<newline>''
   \<and> last (butlast (openApiToLlmText endToEndDocument)) = CHR ''K''"
  using openApiToLlmText_end_to_end by simp

text \<open>
  C2 as stated fails: the returned string is shorter than the text the claim says it
  begins with, which ends in two newlines; the sections of the operation end with an
  empty string, and joining gives one newline after \<^verbatim>\<open>    200: OK\<close>.
\<close>

theorem openApiToLlmText_end_to_end_counterexample:
  "length (openApiToLlmText endToEndDocument)
     < length ''API: T v1\<newline>\<newline>Base URL: /api\<newline>\<newline>ENDPOINTS:\<newline>\<newline>GET /x\<newline>  Summary: S\<newline>  Responses:\<newline>    200: OK\<newline>\<newline>''
   \<and> take 85 (openApiToLlmText endToEndDocument)
       \<noteq> ''API: T v1\<newline>\<newline>Base URL: /api\<newline>\<newline>ENDPOINTS:\<newline>\<newline>GET /x\<newline>  Summary: S\<newline>  Responses:\<newline>    200: OK\<newline>\<newline>''"
  by (simp add: openApiToLlmText_def sections_def isSwagger2_def endToEndDocument_def
      emptyDocument_def formatHeader_def formatEndpoints_def formatPathItem_def
      allPossibleMethods_def formatOperation_def getX_def toUpperCase_def upperChar_def
      formatResponses_def formatResponse_def)

section \<open>The base URL of a Swagger 2.0 document\<close>

lemma join_contains: "x \<in> set xs \<Longrightarrow> \<exists>pre post. join sep xs = pre @ x @ post"
proof (induction sep xs rule: join.induct)
  case (1 sep)
  then show ?case by simp
next
  case (2 sep y)
  then have "join sep [y] = [] @ x @ []" by simp
  then show ?case by blast
next
  case (3 sep y z zs)
  show ?case
  proof (cases "x = y")
    case True
    then have "join sep (y # z # zs) = [] @ x @ (sep @ join sep (z # zs))" by simp
    then show ?thesis by blast
  next
    case False
    with 3 obtain pre post where "join sep (z # zs) = pre @ x @ post" by auto
    then have "join sep (y # z # zs) = (y @ sep @ pre) @ x @ post" by simp
    then show ?thesis by blast
  qed
qed

text \<open>
  C7.  For every document whose \<^verbatim>\<open>swagger\<close> field is exactly \<^verbatim>\<open>2.0\<close>, with host
  and basePath present (given and not empty: the code tests them with \<^verbatim>\<open>&&\<close>), the
  header has the section \<^verbatim>\<open>Base URL: <scheme>://<host><basePath>\<close> and the returned
  text contains it, where the scheme is the first entry of \<^verbatim>\<open>schemes\<close>, and
  \<^verbatim>\<open>https\<close> when \<^verbatim>\<open>schemes\<close> is absent or empty (or its first entry is the empty
  string).  With host \<^verbatim>\<open>api.x.com\<close>, basePath \<^verbatim>\<open>/v1\<close> and schemes
  \<^verbatim>\<open>["http"]\<close> the base URL is \<^verbatim>\<open>http://api.x.com/v1\<close>.
\<close>

theorem swagger2_base_url:
  assumes "swagger d = Some ''2.0''"
    and "host d = Some h" and "h \<noteq> []"
    and "basePath d = Some b" and "b \<noteq> []"
  shows "(''\<newline>Base URL: ''
            @ (case schemes d of
                 None \<Rightarrow> ''https''
               | Some [] \<Rightarrow> ''https''
               | Some (s # ss) \<Rightarrow> if s = [] then ''https'' else s)
            @ ''://'' @ h @ b) \<in> set (formatHeader (info d)
                (case swaggerBaseUrl d of
                   None \<Rightarrow> None
                 | Some baseUrl \<Rightarrow> Some [\<lparr>url = baseUrl, srv_description = None\<rparr>]))
       \<and> (\<exists>pre post. openApiToLlmText d =
             pre @ ''Base URL: ''
               @ (case schemes d of
                    None \<Rightarrow> ''https''
                  | Some [] \<Rightarrow> ''https''
                  | Some (s # ss) \<Rightarrow> if s = [] then ''https'' else s)
               @ ''://'' @ h @ b @ post)"
proof -
  let ?sch = "case schemes d of None \<Rightarrow> ''https'' | Some [] \<Rightarrow> ''https''
                | Some (s # ss) \<Rightarrow> if s = [] then ''https'' else s"
  let ?line = "''\<newline>Base URL: '' @ ?sch @ ''://'' @ h @ b"
  have sch: "swaggerScheme d = ?sch"
    by (simp add: swaggerScheme_def split: option.splits list.splits)
  have base: "swaggerBaseUrl d = Some (?sch @ ''://'' @ h @ b)"
    using assms sch by (simp add: swaggerBaseUrl_def)
  have header: "?line \<in> set (formatHeader (info d)
                (case swaggerBaseUrl d of
                   None \<Rightarrow> None
                 | Some baseUrl \<Rightarrow> Some [\<lparr>url = baseUrl, srv_description = None\<rparr>]))"
    using base by (simp add: formatHeader_def)
  then have "?line \<in> set (sections d)"
    using assms(1) by (simp add: sections_def isSwagger2_def)
  then obtain pre post where "join ''\<newline>'' (sections d) = pre @ ?line @ post"
    using join_contains by blast
  then have "openApiToLlmText d
               = (pre @ ''\<newline>'') @ ''Base URL: '' @ ?sch @ ''://'' @ h @ b @ post"
    by (simp add: openApiToLlmText_def)
  then have "\<exists>pre post. openApiToLlmText d
               = pre @ ''Base URL: '' @ ?sch @ ''://'' @ h @ b @ post"
    by blast
  with header show ?thesis by blast
qed

theorem swagger2_base_url_witness:
  "swagger swaggerDocument = Some ''2.0''
   \<and> host swaggerDocument = Some ''api.x.com''
   \<and> basePath swaggerDocument = Some ''/v1''
   \<and> (\<exists>pre post. openApiToLlmText swaggerDocument
         = pre @ ''Base URL: http://api.x.com/v1'' @ post)"
  using swagger2_base_url [of swaggerDocument "''api.x.com''" "''/v1''"]
  by (simp add: swaggerDocument_def emptyDocument_def)

text \<open>
  A host or basePath that is absent or is the empty string fails the test: no base URL
  is passed to the header.
\<close>

lemma swaggerBaseUrl_absent:
  "\<not> truthy (host d) \<or> \<not> truthy (basePath d) \<Longrightarrow> swaggerBaseUrl d = None"
  by (auto simp: swaggerBaseUrl_def)

section \<open>Parameters\<close>

lemma resolveParameterRef_collection:
  "resolveParameterRef r d =
     (case parameterCollection d of
        None \<Rightarrow> None
      | Some ps \<Rightarrow> propertyGet ps (lastSegment r))"
  by (simp add: resolveParameterRef_def parameterCollection_def isSwagger2_def
      split: option.splits)

lemma propertyGet_None_iff:
  "propertyGet ps k = None \<longleftrightarrow> k \<notin> fst ` set ps \<and> inheritedMember k = None"
  by (force simp: propertyGet_def map_of_eq_None_iff split: option.splits
      dest: map_of_SomeD)

lemma resolvedParameter_None_iff: "resolvedParameter d p = None \<longleftrightarrow> unresolvable d p"
  by (simp add: resolvedParameter_def unresolvable_def resolveParameterRef_collection
      propertyGet_None_iff split: option.splits)

lemma paramLines_append: "paramLines (ps @ qs) d = paramLines ps d @ paramLines qs d"
  by (simp add: paramLines_def)

lemma paramLines_Cons:
  "paramLines (p # ps) d =
     (case resolvedParameter d p of None \<Rightarrow> [] | Some rp \<Rightarrow> [parameterLine rp])
       @ paramLines ps d"
  by (simp add: paramLines_def)

lemma paramLines_unresolvable: "\<forall>p\<in>set ps. unresolvable d p \<Longrightarrow> paramLines ps d = []"
  by (induction ps) (simp_all add: paramLines_Cons resolvedParameter_None_iff [symmetric],
      simp add: paramLines_def)

lemma parameterLine_in_paramLines:
  "p \<in> set ps \<Longrightarrow> resolvedParameter d p = Some rp \<Longrightarrow>
   parameterLine rp \<in> set (paramLines ps d)"
  by (force simp: paramLines_def)

lemma contentLines_not_parameters:
  "''  Parameters:'' \<notin> set (contentLines (''    '' @ ind) c content)"
  by (induction content) (auto simp: contentLines_def)

lemma formatRequestBody_not_parameters: "''  Parameters:'' \<notin> set (formatRequestBody rb)"
proof (cases "rb_content rb")
  case None
  then show ?thesis by (simp add: formatRequestBody_def)
next
  case (Some content)
  then show ?thesis
    using contentLines_not_parameters [of "[]" RequestBody content]
    by (simp add: formatRequestBody_def)
qed

lemma formatResponse_not_parameters: "''  Parameters:'' \<notin> set (formatResponse e)"
proof (cases e)
  case (Pair statusCode resp)
  show ?thesis
  proof (cases "resp_content resp")
    case None
    then show ?thesis using Pair
      by (simp add: formatResponse_def split: option.splits)
  next
    case (Some content)
    then show ?thesis
      using Pair contentLines_not_parameters [of "''  ''" Response content]
      by (simp add: formatResponse_def)
  qed
qed

lemma formatResponses_not_parameters: "''  Parameters:'' \<notin> set (formatResponses rs)"
  by (simp add: formatResponses_def formatResponse_not_parameters)

lemma method_line_not_parameters:
  "method \<in> set allPossibleMethods \<Longrightarrow> toUpperCase method @ '' '' @ path \<noteq> ''  Parameters:''"
  by (auto simp: allPossibleMethods_def toUpperCase_def upperChar_def)

text \<open>
  C6.  The code at a reference whose name is a member inherited from
  \<^verbatim>\<open>Object.prototype\<close>: the component parameters of the document hold \<^verbatim>\<open>limit\<close>
  alone, and the one parameter of the operation refers to \<^verbatim>\<open>toString\<close>.  The
  reference cannot be resolved in the collection, but the lookup finds the inherited
  function, which is truthy, so the entry is not skipped: the heading
  \<^verbatim>\<open>  Parameters:\<close> and a line are printed.  The claim, and the comment of the code
  on this branch (\<^verbatim>\<open>Skip if we can't resolve the reference\<close>), say that the entry is
  dropped and the heading omitted.
\<close>

theorem inherited_member_not_dropped:
  "map_of [(''limit'', limitParameter)] ''toString'' = None
   \<and> resolveParameterRef ''#/components/parameters/toString'' parameterDocument
       = Some (emptyParameter\<lparr>p_name := Some ''toString''\<rparr>)
   \<and> formatParameters [toStringRef] parameterDocument
       = [''  Parameters:'', ''    - toString (undefined, unknown (optional)): No description'']
   \<and> formatOperation ''get'' ''/x'' toStringOperation parameterDocument
       = [''GET /x'', ''  Parameters:'',
          ''    - toString (undefined, unknown (optional)): No description'', []]"
  by (simp add: formatOperation_def toStringOperation_def emptyOperation_def toUpperCase_def
      upperChar_def formatParameters_def paramLines_def resolvedParameter_def
      resolveParameterRef_def propertyGet_def inheritedMember_def objectPrototypeFunctions_def
      isSwagger2_def parameterDocument_def emptyDocument_def toStringRef_def
      emptyParameter_def lastSegment_def parameterLine_def parameterType_def)

text \<open>
  What holds of unresolvable references: an entry whose \<^verbatim>\<open>$ref\<close> names neither an
  own entry of the collection of the document's version nor an inherited member gives no
  line, wherever it stands in the list.  When every parameter of an operation is such an
  entry, no line is produced and the heading \<^verbatim>\<open>  Parameters:\<close> is absent from the
  lines of the operation.
\<close>

lemma unresolved_parameter_dropped:
  assumes "unresolvable d p"
  shows "formatParameters (ps @ p # qs) d = formatParameters (ps @ qs) d
       \<and> ((\<forall>q\<in>set rs. unresolvable d q) \<and> method \<in> set allPossibleMethods
              \<and> op_parameters operation = Some rs
            \<longrightarrow> formatParameters rs d = []
                \<and> ''  Parameters:'' \<notin> set (formatOperation method path operation d))"
proof -
  have "paramLines [p] d = []"
    using assms by (simp add: paramLines_unresolvable)
  then have "paramLines (ps @ [p] @ qs) d = paramLines (ps @ qs) d"
    by (simp only: paramLines_append append_Nil)
  then have dropped: "formatParameters (ps @ p # qs) d = formatParameters (ps @ qs) d"
    by (simp add: formatParameters_def)
  have "formatParameters rs d = []
        \<and> ''  Parameters:'' \<notin> set (formatOperation method path operation d)"
    if all: "\<forall>q\<in>set rs. unresolvable d q" and m: "method \<in> set allPossibleMethods"
      and ops: "op_parameters operation = Some rs"
  proof -
    have fp: "formatParameters rs d = []"
      using all by (simp add: formatParameters_def paramLines_unresolvable)
    have "''  Parameters:'' \<notin> set (formatOperation method path operation d)"
      using method_line_not_parameters [OF m, of path] fp ops
        formatRequestBody_not_parameters formatResponses_not_parameters
      by (auto simp: formatOperation_def split: option.splits)
    with fp show ?thesis by simp
  qed
  with dropped show ?thesis by blast
qed

lemma unresolved_parameter_dropped_example:
  "unresolvable parameterDocument offsetRef
   \<and> formatParameters [offsetRef, limitRef] parameterDocument
       = [''  Parameters:'', ''    - limit (query, integer (optional)): No description'']
   \<and> formatParameters [offsetRef] parameterDocument = []
   \<and> formatOperation ''get'' ''/x'' offsetOperation parameterDocument = [''GET /x'', []]"
proof -
  have u: "unresolvable parameterDocument offsetRef"
    by (simp add: unresolvable_def parameterCollection_def parameterDocument_def
        emptyDocument_def offsetRef_def emptyParameter_def lastSegment_def
        inheritedMember_def objectPrototypeFunctions_def)
  have l: "formatParameters [limitRef] parameterDocument
             = [''  Parameters:'', ''    - limit (query, integer (optional)): No description'']"
    by (simp add: formatParameters_def paramLines_def resolvedParameter_def
        resolveParameterRef_def propertyGet_def isSwagger2_def parameterDocument_def
        emptyDocument_def limitRef_def limitParameter_def emptyParameter_def lastSegment_def
        parameterLine_def
        parameterType_def typeSchema_def contextOnly_def primitiveType_def
        includeFormatOf_def)
  have o: "formatOperation ''get'' ''/x'' offsetOperation parameterDocument
             = [''GET /x''] @ formatParameters [offsetRef] parameterDocument @ [[]]"
    by (simp add: formatOperation_def offsetOperation_def emptyOperation_def toUpperCase_def
        upperChar_def)
  have m: "''get'' \<in> set allPossibleMethods"
    by (simp add: allPossibleMethods_def)
  have r: "op_parameters offsetOperation = Some [offsetRef]"
    by (simp add: offsetOperation_def emptyOperation_def)
  show ?thesis
    using unresolved_parameter_dropped
      [OF u, of "[]" "[limitRef]" "[offsetRef]" "''get''" offsetOperation "''/x''"]
      u l o m r
    by simp
qed

text \<open>
  C9.  A parameter that is rendered (itself, or the node its reference resolves to) is
  never dropped: its line is among the lines of the operation's parameters.  When the
  node has no \<^verbatim>\<open>name\<close>, the line has \<^verbatim>\<open>undefined\<close> in its place; when it has no
  \<^verbatim>\<open>in\<close>, the line has \<^verbatim>\<open>undefined\<close> in its place; when it has neither a schema
  nor a type, its type is \<^verbatim>\<open>unknown\<close>.
\<close>

theorem parameter_missing_fields:
  assumes "p \<in> set ps" and "resolvedParameter d p = Some rp"
  shows "parameterLine rp \<in> set (formatParameters ps d)
       \<and> (p_name rp = None \<longrightarrow>
            parameterLine rp =
              ''    - undefined ('' @ or_else (p_in rp) ''undefined'' @ '', ''
                @ parameterType rp
                @ '' ('' @ (if p_required rp then ''required'' else ''optional'') @ '')): ''
                @ or_else (p_description rp) ''No description'')
       \<and> (p_in rp = None \<longrightarrow>
            parameterLine rp =
              ''    - '' @ or_else (p_name rp) ''undefined'' @ '' (undefined, ''
                @ parameterType rp
                @ '' ('' @ (if p_required rp then ''required'' else ''optional'') @ '')): ''
                @ or_else (p_description rp) ''No description'')
       \<and> (p_schema rp = None \<and> p_type rp = None \<longrightarrow> parameterType rp = ''unknown'')"
proof -
  have "parameterLine rp \<in> set (paramLines ps d)"
    using assms by (rule parameterLine_in_paramLines)
  then have "parameterLine rp \<in> set (formatParameters ps d)"
    by (auto simp: formatParameters_def)
  then show ?thesis
    by (simp add: parameterLine_def parameterType_def)
qed

theorem parameter_missing_fields_witness:
  "resolvedParameter emptyDocument emptyParameter = Some emptyParameter
   \<and> formatParameters [emptyParameter] emptyDocument
       = [''  Parameters:'', ''    - undefined (undefined, unknown (optional)): No description'']"
  using parameter_missing_fields [of emptyParameter "[emptyParameter]" emptyDocument emptyParameter]
  by (simp add: emptyParameter_def resolvedParameter_def formatParameters_def paramLines_def
      parameterLine_def parameterType_def)

section \<open>The endpoints heading\<close>





















section \<open>Property lines of the schema listing\<close>

lemma formatSchema_object:
  assumes "allOf s = None" and "oneOf s = None" and "anyOf s = None"
    and "stype s \<noteq> Some ''array''" and "properties s = Some ps"
  shows "formatSchema s indent parent reg =
           (\<lparr>ftype = ''object'',
             flines = map (propertyLine indent (case required s of None \<Rightarrow> [] | Some r \<Rightarrow> r)) ps\<rparr>,
            reg)"
  using assms by (simp add: formatSchema_def)

lemma propertyType_ref: "ref p = Some r \<Longrightarrow> propertyType p = ''object''"
  by (simp add: propertyType_def)

lemma propertyType_composition:
  "ref p = None \<Longrightarrow> compositionOf p = Some (kind, bs) \<Longrightarrow> propertyType p = propComposition kind bs"
  by (auto simp: propertyType_def compositionOf_def split: option.splits)

text \<open>
  C5.  For a top-level schema rendered as an object in the schema listing (no
  composition keyword, not an array, with properties), the body has one line per
  property, \<^verbatim>\<open>- <name><marker>: <type>\<close>, where the type is as follows.  A property
  that carries a \<^verbatim>\<open>$ref\<close> has the type \<^verbatim>\<open>object\<close>, not the name of the reference.
  A property that is a composition with exactly one branch, that branch a reference (a
  node with a non-empty \<^verbatim>\<open>$ref\<close> string), has the trailing name of that reference.
  A property that is a composition with two or more branches has
  \<^verbatim>\<open><kind> [<branch-types>]\<close>, each branch being the trailing name of its reference,
  or else its declared type, or else \<^verbatim>\<open>inline\<close>.
\<close>

theorem property_line_types:
  assumes "allOf s = None" and "oneOf s = None" and "anyOf s = None"
    and "stype s \<noteq> Some ''array''" and "properties s = Some ps"
  shows "flines (fst (formatSchema s indent parent reg)) =
           map (\<lambda>(n, p). indent @ ''- '' @ n
                  @ (if n \<in> set (case required s of None \<Rightarrow> [] | Some r \<Rightarrow> r) then ''*'' else [])
                  @ '': '' @ propertyType p) ps
       \<and> (ref p1 = Some r1 \<longrightarrow> propertyType p1 = ''object'')
       \<and> (ref p2 = None \<and> compositionOf p2 = Some (kind2, [b2]) \<and> ref b2 = Some r2 \<and> r2 \<noteq> []
            \<longrightarrow> propertyType p2 = afterLastSlash r2)
       \<and> (ref p3 = None \<and> compositionOf p3 = Some (kind3, bs3) \<and> 2 \<le> length bs3
            \<longrightarrow> propertyType p3 = kind3 @ '' ['' @ join '', '' (map propBranchName bs3) @ '']'')
       \<and> (ref b4 = Some r4 \<and> r4 \<noteq> [] \<longrightarrow> propBranchName b4 = afterLastSlash r4)
       \<and> (\<not> truthy (ref b5) \<and> stype b5 = Some t5 \<and> t5 \<noteq> [] \<longrightarrow> propBranchName b5 = t5)
       \<and> (\<not> truthy (ref b6) \<and> \<not> truthy (stype b6) \<longrightarrow> propBranchName b6 = ''inline'')"
proof -
  have lines: "flines (fst (formatSchema s indent parent reg)) =
           map (\<lambda>(n, p). indent @ ''- '' @ n
                  @ (if n \<in> set (case required s of None \<Rightarrow> [] | Some r \<Rightarrow> r) then ''*'' else [])
                  @ '': '' @ propertyType p) ps"
    using formatSchema_object [OF assms, of indent parent reg]
    by (simp add: propertyLine_def split_def)
  have single: "propertyType p2 = afterLastSlash r2"
    if "ref p2 = None" "compositionOf p2 = Some (kind2, [b2])" "ref b2 = Some r2" "r2 \<noteq> []"
    using that propertyType_composition [of p2 kind2 "[b2]"]
    by (simp add: propComposition_def propBranchName_def lastSegment_afterLastSlash)
  have multi: "propertyType p3 = kind3 @ '' ['' @ join '', '' (map propBranchName bs3) @ '']''"
    if "ref p3 = None" "compositionOf p3 = Some (kind3, bs3)" "2 \<le> length bs3"
    using that propertyType_composition [of p3 kind3 bs3]
    by (simp add: propComposition_def)
  have b4: "propBranchName b4 = afterLastSlash r4" if "ref b4 = Some r4" "r4 \<noteq> []"
    using that by (simp add: propBranchName_def lastSegment_afterLastSlash)
  have b5: "propBranchName b5 = t5" if "\<not> truthy (ref b5)" "stype b5 = Some t5" "t5 \<noteq> []"
    using that by (simp add: propBranchName_def)
  have b6: "propBranchName b6 = ''inline''" if "\<not> truthy (ref b6)" "\<not> truthy (stype b6)"
    using that by (cases "stype b6") (simp_all add: propBranchName_def)
  show ?thesis
    using lines single multi b4 b5 b6 by (simp add: propertyType_ref)
qed

theorem property_line_types_witness:
  "flines (fst (formatSchema petSchema ''  '' (Some ''Pet'') (Some [])))
     = [''  - owner*: object'', ''  - category: Category'',
        ''  - kind: allOf [Cat, string, inline]'']"
  using property_line_types
    [of petSchema _ "''  ''" "Some ''Pet''" "Some []"
        "refSchema ''#/components/schemas/User''" "''#/components/schemas/User''"
        "allOfSchema [refSchema ''#/components/schemas/Category'']" "''allOf''"
        "refSchema ''#/components/schemas/Category''" "''#/components/schemas/Category''"
        "allOfSchema [refSchema ''#/components/schemas/Cat'', typeSchema ''string'', emptySchema]"
        "''allOf''"
        "[refSchema ''#/components/schemas/Cat'', typeSchema ''string'', emptySchema]"
        "refSchema ''#/components/schemas/Cat''" "''#/components/schemas/Cat''"
        "typeSchema ''string''" "''string''" emptySchema]
  by (simp add: petSchema_def refSchema_def allOfSchema_def typeSchema_def emptySchema_def
      compositionOf_def afterLastSlash_def propBranchName_def lastSegment_def)

section \<open>Virtual schemas\<close>

lemma digit_cases: "d < 10 \<Longrightarrow> d \<in> {0, 1, 2, 3, 4, 5, 6, 7, 8, 9::nat}"
  by auto

lemma nat_of_digitChar: "d < 10 \<Longrightarrow> of_char (digitChar d) = 48 + d"
  using digit_cases [of d] by (auto simp: digitChar_def)

lemma digitChar_inj:
  assumes "a < 10" and "b < 10" and "digitChar a = digitChar b"
  shows "a = b"
proof -
  have "48 + a = (of_char (digitChar a) :: nat)"
    using assms(1) by (simp add: nat_of_digitChar)
  also have "\<dots> = of_char (digitChar b)"
    by (simp only: assms(3))
  also have "\<dots> = 48 + b"
    using assms(2) by (simp add: nat_of_digitChar)
  finally show ?thesis by simp
qed

lemma showNat_not_Nil: "showNat n \<noteq> []"
  by (subst showNat.simps) simp

lemma showNat_inj: "showNat m = showNat n \<Longrightarrow> m = n"
proof (induction m arbitrary: n rule: showNat.induct)
  case (1 m)
  show ?case
  proof (cases "m < 10")
    case small: True
    show ?thesis
    proof (cases "n < 10")
      case True
      with small 1(2) show ?thesis
        by (simp add: showNat.simps [of m] showNat.simps [of n] digitChar_inj)
    next
      case False
      with small 1(2) show ?thesis
        using showNat_not_Nil [of "n div 10"]
        by (simp add: showNat.simps [of m] showNat.simps [of n])
    qed
  next
    case big: False
    show ?thesis
    proof (cases "n < 10")
      case True
      with big 1(2) show ?thesis
        using showNat_not_Nil [of "m div 10"]
        by (simp add: showNat.simps [of m] showNat.simps [of n])
    next
      case False
      with big 1(2) have eq: "showNat (m div 10) = showNat (n div 10)"
        and d: "digitChar (m mod 10) = digitChar (n mod 10)"
        by (simp_all add: showNat.simps [of m] showNat.simps [of n])
      from 1(1) [OF big eq] have "m div 10 = n div 10" .
      moreover from d have "m mod 10 = n mod 10" by (simp add: digitChar_inj)
      ultimately show ?thesis by (metis div_mult_mod_eq)
    qed
  qed
qed

lemma virtualName_inj: "virtualName parent i = virtualName parent j \<Longrightarrow> i = j"
  by (simp add: virtualName_def showNat_inj)

lemma registrySet_fresh: "k \<notin> fst ` set reg \<Longrightarrow> registrySet reg k v = reg @ [(k, v)]"
  by (induction reg) auto

lemma mapBranches_fst_Cons:
  "fst (mapBranches parent (s # ss) c reg) =
     (if isInlineObject s
      then virtualName parent c
             # fst (mapBranches parent ss (Suc c) (register reg (virtualName parent c) s))
      else propBranchName s # fst (mapBranches parent ss c reg))"
  by (auto simp: isInlineObject_def propBranchName_def split: prod.splits)

lemma mapBranches_snd_Cons:
  "snd (mapBranches parent (s # ss) c reg) =
     (if isInlineObject s
      then snd (mapBranches parent ss (Suc c) (register reg (virtualName parent c) s))
      else snd (mapBranches parent ss c reg))"
  by (auto simp: isInlineObject_def split: prod.splits)

lemma upt_inline_Cons: "[c..<Suc (c + k)] = c # [Suc c..<Suc (c + k)]"
  by (simp add: upt_conv_Cons)

lemma mapBranches_registry:
  "\<forall>j\<ge>c. virtualName parent j \<notin> fst ` set r \<Longrightarrow>
   snd (mapBranches parent bs c (Some r)) =
     Some (r @ zip (map (virtualName parent) [c..<c + length (inlineBranches bs)])
                   (inlineBranches bs))"
proof (induction bs arbitrary: c r)
  case Nil
  then show ?case by (simp add: inlineBranches_def)
next
  case (Cons b bs)
  show ?case
  proof (cases "isInlineObject b")
    case False
    then show ?thesis using Cons.IH [OF Cons.prems]
      by (simp add: mapBranches_snd_Cons inlineBranches_def del: mapBranches.simps)
  next
    case True
    let ?r = "r @ [(virtualName parent c, b)]"
    have fresh: "\<forall>j\<ge>Suc c. virtualName parent j \<notin> fst ` set ?r"
      using Cons.prems by (auto dest: virtualName_inj)
    have reg: "register (Some r) (virtualName parent c) b = Some ?r"
      using Cons.prems by (simp add: register_def registrySet_fresh)
    show ?thesis using True Cons.IH [OF fresh] reg
      by (simp add: mapBranches_snd_Cons inlineBranches_def upt_inline_Cons
          del: mapBranches.simps upt_Suc)
  qed
qed

lemma mapBranches_length: "length (fst (mapBranches parent bs c reg)) = length bs"
proof (induction bs arbitrary: c reg)
  case Nil
  show ?case by simp
next
  case (Cons b bs)
  then show ?case by (simp add: mapBranches_fst_Cons del: mapBranches.simps)
qed

lemma mapBranches_names:
  "map snd (filter (\<lambda>(b, n). isInlineObject b) (zip bs (fst (mapBranches parent bs c reg))))
     = map (virtualName parent) [c..<c + length (inlineBranches bs)]"
proof (induction bs arbitrary: c reg)
  case Nil
  then show ?case by (simp add: inlineBranches_def)
next
  case (Cons b bs)
  show ?case
  proof (cases "isInlineObject b")
    case False
    then show ?thesis using Cons.IH [of c reg]
      by (simp add: mapBranches_fst_Cons inlineBranches_def del: mapBranches.simps)
  next
    case True
    then show ?thesis
      using Cons.IH [of "Suc c" "register reg (virtualName parent c) b"]
      by (simp add: mapBranches_fst_Cons inlineBranches_def upt_inline_Cons
          del: mapBranches.simps upt_Suc)
  qed
qed

lemma formatSchema_composition:
  "compositionOf s = Some (kind, bs) \<Longrightarrow>
   formatSchema s indent parent reg = formatComposition kind parent bs reg"
  by (auto simp: compositionOf_def formatSchema_def split: option.splits)
lemma formatNamedSchema_composition:
  assumes "compositionOf s = Some (kind, bs)"
  shows "formatNamedSchema (name, s) =
           schemaBlock name
             \<lparr>ftype = kind @ '' ['' @ join '', '' (fst (mapBranches (Some name) bs 1 (Some [])))
                        @ '']'',
              flines = []\<rparr>
           @ concat (map (\<lambda>(vName, b).
                 schemaBlock vName (fst (formatSchema b ''  '' (Some vName) (Some []))))
               (zip (map (virtualName (Some name)) [1..<1 + length (inlineBranches bs)])
                    (inlineBranches bs)))"
proof -
  have "snd (mapBranches (Some name) bs 1 (Some [])) =
          Some ([] @ zip (map (virtualName (Some name)) [1..<1 + length (inlineBranches bs)])
                   (inlineBranches bs))"
    by (rule mapBranches_registry) simp
  then show ?thesis
    using formatSchema_composition [OF assms, of "''  ''" "Some name" "Some []"]
    by (simp add: formatNamedSchema_def formatComposition_def virtualBlocks_def
        split: prod.splits)
qed

lemma formatSchema_registry:
  assumes "compositionOf s = Some (kind, bs)"
  shows "snd (formatSchema s ''  '' (Some name) (Some [])) =
           Some (zip (map (virtualName (Some name)) [1..<1 + length (inlineBranches bs)])
                     (inlineBranches bs))"
proof -
  have "snd (mapBranches (Some name) bs 1 (Some [])) =
          Some ([] @ zip (map (virtualName (Some name)) [1..<1 + length (inlineBranches bs)])
                   (inlineBranches bs))"
    by (rule mapBranches_registry) simp
  then show ?thesis
    using formatSchema_composition [OF assms, of "''  ''" "Some name" "Some []"]
    by (simp add: formatComposition_def split: prod.splits)
qed

lemma formatSchemas_split:
  "formatSchemas (pre @ e # post) =
     formatSchemas pre @ formatNamedSchema e @ concat (map formatNamedSchema post)"
  by (simp add: formatSchemas_def)

text \<open>
  C1 (amended).  Let a top-level named schema render as a composition: \<open>kind\<close> is the
  first of \<^verbatim>\<open>allOf\<close>, \<^verbatim>\<open>oneOf\<close>, \<^verbatim>\<open>anyOf\<close> it has, \<open>bs\<close> its branches.  The
  schema-listing pass registers each inline object branch (no usable \<^verbatim>\<open>$ref\<close>, type
  \<^verbatim>\<open>object\<close>, with properties), in order, under the name
  \<^verbatim>\<open><\<close>parent\<^verbatim>\<open>__inline__\<close>ordinal\<^verbatim>\<open>>\<close>, the angle brackets being part of the name;
  the ordinal starts at 1 for each parent and grows by one with each inline object
  branch.  The branch list of the parent shows these names at the places of the inline
  object branches.  The block of each registered branch follows the block of the parent
  at once, before the next schema.
\<close>

theorem virtual_schemas_registered:
  assumes "compositionOf s = Some (kind, bs)"
  shows "snd (formatSchema s ''  '' (Some name) (Some [])) =
           Some (zip (map (virtualName (Some name)) [1..<1 + length (inlineBranches bs)])
                     (inlineBranches bs))
       \<and> virtualName (Some name) i = ''<'' @ name @ ''__inline__'' @ showNat i @ ''>''
       \<and> length (fst (mapBranches (Some name) bs 1 (Some []))) = length bs
       \<and> map snd (filter (\<lambda>(b, n). isInlineObject b)
                     (zip bs (fst (mapBranches (Some name) bs 1 (Some [])))))
           = map (virtualName (Some name)) [1..<1 + length (inlineBranches bs)]
       \<and> formatNamedSchema (name, s) =
           schemaBlock name
             \<lparr>ftype = kind @ '' ['' @ join '', '' (fst (mapBranches (Some name) bs 1 (Some [])))
                        @ '']'',
              flines = []\<rparr>
           @ concat (map (\<lambda>(vName, b).
                 schemaBlock vName (fst (formatSchema b ''  '' (Some vName) (Some []))))
               (zip (map (virtualName (Some name)) [1..<1 + length (inlineBranches bs)])
                    (inlineBranches bs)))
       \<and> formatSchemas (pre @ (name, s) # post) =
           formatSchemas pre @ formatNamedSchema (name, s)
             @ concat (map formatNamedSchema post)"
proof -
  have name: "virtualName (Some name) i = ''<'' @ name @ ''__inline__'' @ showNat i @ ''>''"
    by (simp add: virtualName_def)
  show ?thesis
    using formatSchema_registry [OF assms, of name] name
      mapBranches_length [of "Some name" bs 1 "Some []"]
      mapBranches_names [of bs "Some name" 1 "Some []"]
      formatNamedSchema_composition [OF assms, of name]
      formatSchemas_split [of pre "(name, s)" post]
    by (simp only: simp_thms)
qed

theorem virtual_schemas_registered_witness:
  "compositionOf fooSchema = Some (''allOf'', [refSchema ''#/components/schemas/Bar'', xyObject])
   \<and> snd (formatSchema fooSchema ''  '' (Some ''Foo'') (Some []))
       = Some [(''<Foo__inline__1>'', xyObject)]
   \<and> formatSchemas [(''Foo'', fooSchema)] =
       [''SCHEMAS:'', ''> * = required\<newline>'', ''Foo: allOf [Bar, <Foo__inline__1>]'', [],
        ''<Foo__inline__1>: object'', ''  - x: string'', ''  - y: integer'', []]"
proof -
  have c: "compositionOf fooSchema
             = Some (''allOf'', [refSchema ''#/components/schemas/Bar'', xyObject])"
    by (simp add: compositionOf_def fooSchema_def allOfSchema_def)
  have i: "inlineBranches [refSchema ''#/components/schemas/Bar'', xyObject] = [xyObject]"
    by (simp add: inlineBranches_def isInlineObject_def refSchema_def xyObject_def
        objectSchema_def)
  have n: "showNat 1 = ''1''"
    by (simp add: showNat.simps digitChar_def)
  have x: "fst (formatSchema xyObject ''  '' (Some ''<Foo__inline__1>'') (Some []))
             = \<lparr>ftype = ''object'', flines = [''  - x: string'', ''  - y: integer'']\<rparr>"
    by (simp add: xyObject_def objectSchema_def typeSchema_def formatSchema_def
        propertyLine_def propertyType_def isPrimitive_def primitiveType_def)
  have b: "fst (mapBranches (Some ''Foo'')
                  [refSchema ''#/components/schemas/Bar'', xyObject] 1 (Some []))
             = [''Bar'', ''<Foo__inline__1>'']"
    using n by (simp add: refSchema_def xyObject_def objectSchema_def lastSegment_def
        virtualName_def)
  show ?thesis
    using virtual_schemas_registered [OF c, of "''Foo''" 1 "[]" "[]"] c i n x b
    by (simp add: formatSchemas_def schemaBlock_def)
qed

text \<open>
  C1 as stated fails on the name: for \<^verbatim>\<open>Foo\<close> the one registered virtual schema is
  named \<^verbatim>\<open><Foo__inline__1>\<close>, with the angle brackets, and no block named
  \<^verbatim>\<open>Foo__inline__1\<close> is emitted.
\<close>

theorem virtual_schemas_registered_counterexample:
  "map fst (case snd (formatSchema fooSchema ''  '' (Some ''Foo'') (Some [])) of
              None \<Rightarrow> []
            | Some reg \<Rightarrow> reg) \<noteq> [''Foo__inline__1'']
   \<and> ''Foo__inline__1: object'' \<notin> set (formatSchemas [(''Foo'', fooSchema)])
   \<and> ''<Foo__inline__1>: object'' \<in> set (formatSchemas [(''Foo'', fooSchema)])"
  by (simp add: formatSchemas_def formatNamedSchema_def fooSchema_def allOfSchema_def
      refSchema_def xyObject_def objectSchema_def typeSchema_def formatSchema_def
      formatComposition_def virtualName_def showNat.simps digitChar_def lastSegment_def
      register_def schemaBlock_def virtualBlocks_def propertyLine_def propertyType_def
      isPrimitive_def primitiveType_def)

section \<open>The registry is only written\<close>

text \<open>
  The text that \<open>formatSchema\<close> renders does not depend on the contents of the
  registry it is given: the registry is written, never read.
\<close>

lemma mapBranches_names_registry:
  "fst (mapBranches parent bs c reg) = fst (mapBranches parent bs c reg')"
proof (induction bs arbitrary: c reg reg')
  case Nil
  show ?case by simp
next
  case (Cons b bs)
  show ?case
    using Cons [of c reg reg']
      Cons [of "Suc c" "register reg (virtualName parent c) b"
               "register reg' (virtualName parent c) b"]
    by (simp add: mapBranches_fst_Cons del: mapBranches.simps)
qed

lemma formatComposition_result:
  "fst (formatComposition kind parent bs reg) =
     \<lparr>ftype = kind @ '' ['' @ join '', '' (fst (mapBranches parent bs 1 reg)) @ '']'',
      flines = []\<rparr>"
  by (simp add: formatComposition_def split: prod.splits)

lemma formatSchema_result_registry:
  "fst (formatSchema s indent parent reg) = fst (formatSchema s indent parent reg')"
  using mapBranches_names_registry [of parent _ 1 reg reg']
  by (simp add: formatSchema_def formatComposition_result split: option.splits)

end
